theory Spec2Isabelle
  imports Complex_Main "HOL-Library.Char_ord" "HOL-Library.List_Lexorder"
begin

section \<open>Data model (prisma/schema.prisma)\<close>

text \<open>
  Identifiers are the strings the store generates (\<open>uuid()\<close>) or the identity provider
  issues. Prices are \<open>Decimal(10,2)\<close> columns, modelled as exact rationals; timestamps are
  natural numbers (later is larger). Columns that none of the actions modelled here reads
  (a car's year, mileage, color, seats, featured flag and images; a user's name, image and
  phone; the surrogate id and timestamps of saved-car and working-hour rows) are left out.
\<close>

type_synonym ident = string

datatype UserRole = USER | ADMIN

datatype CarStatus = AVAILABLE | UNAVAILABLE | SOLD

datatype DayOfWeek = MONDAY | TUESDAY | WEDNESDAY | THURSDAY | FRIDAY | SATURDAY | SUNDAY

datatype BookingStatus = PENDING | CONFIRMED | COMPLETED | CANCELLED | NO_SHOW

record User =
  user_id :: ident
  clerkUserId :: string
  email :: string
  role :: UserRole

record Car =
  car_id :: ident
  brand :: string
  model :: string
  price :: rat
  fuelType :: string
  transmission :: string
  bodyType :: string
  description :: string
  status :: CarStatus
  car_createdAt :: nat

record UserSavedCar =
  saved_userId :: ident
  saved_carId :: ident

record TestDriveBooking =
  booking_id :: ident
  booking_carId :: ident
  booking_userId :: ident
  bookingDate :: nat
  booking_status :: BookingStatus
  booking_createdAt :: nat

record WorkingHour =
  dayOfWeek :: DayOfWeek
  openTime :: string
  closeTime :: string
  isOpen :: bool

text \<open>
  A dealership row owns its working hours (the relation \<open>workingHours WorkingHour[]\<close>, with
  \<open>onDelete: Cascade\<close>), so the rows of a dealership are kept inside its record.
\<close>

record DealershipInfo =
  dealership_id :: ident
  dealership_name :: string
  address :: string
  phone :: string
  dealership_email :: string
  workingHours :: "WorkingHour list"
  dealership_createdAt :: nat
  dealership_updatedAt :: nat

text \<open>The tables of the store, each in storage order.\<close>

record store =
  users :: "User list"
  cars :: "Car list"
  savedCars :: "UserSavedCar list"
  testDrives :: "TestDriveBooking list"
  dealerships :: "DealershipInfo list"

section \<open>JavaScript values\<close>

text \<open>
  A JavaScript number: NaN, the two infinities, or a finite value. Finite values are exact
  rationals; rounding to binary64 is outside the model, and \<open>-0\<close> is \<open>0\<close>.
\<close>

datatype jsnum = NaN | NegInf | Fin rat | PosInf

definition truthy_num :: "jsnum \<Rightarrow> bool" where
  "truthy_num n = (n \<noteq> NaN \<and> n \<noteq> Fin 0)"

definition truthy_str :: "string \<Rightarrow> bool" where
  "truthy_str s = (s \<noteq> [])"

text \<open>\<open>a || b\<close> on numbers.\<close>

definition num_or :: "jsnum \<Rightarrow> jsnum \<Rightarrow> jsnum" where
  "num_or a b = (if truthy_num a then a else b)"

section \<open>Errors and outcomes\<close>

datatype store_error =
  NegativeSkip | InvalidNumber | OutOfRange | RecordNotFound | UniqueViolation

datatype error =
    Unauthorized
  | UserNotFound
  | AdminRequired
  | DealershipNotFound
  | CarNotFound
  | MissingUser
  | MissingRole
  | StoreFailure store_error

text \<open>
  An action either throws (its \<open>catch\<close> block rethrows), returns
  \<open>{success: false, error}\<close>, or returns \<open>{success: true, ...}\<close>.
\<close>

datatype 'a outcome = Thrown error | Failure error | Success 'a

section \<open>Filter facets: getCarFilters\<close>

record PriceRange =
  range_min :: rat
  range_max :: rat

record CarFilters =
  brands :: "string list"
  bodyTypes :: "string list"
  fuelTypes :: "string list"
  transmissions :: "string list"
  priceRange :: PriceRange

definition available :: "store \<Rightarrow> Car list" where
  "available s = filter (\<lambda>c. status c = AVAILABLE) (cars s)"

text \<open>
  \<open>findMany({where: {status: "AVAILABLE"}, select: {f: true}, distinct: [f], orderBy: {f: "asc"}})\<close>
  followed by \<open>.map((item) => item.f)\<close>: the values of column \<open>f\<close> over the available
  cars, without repetition, ascending.
\<close>

definition distinct_asc :: "(Car \<Rightarrow> string) \<Rightarrow> store \<Rightarrow> string list" where
  "distinct_asc f s = sort (remdups (map f (available s)))"

text \<open>\<open>aggregate({_min: ...})\<close> and \<open>_max\<close>: null on no rows.\<close>

fun aggregate_min :: "rat list \<Rightarrow> rat option" where
  "aggregate_min [] = None"
| "aggregate_min (x # xs) = Some (fold min xs x)"

fun aggregate_max :: "rat list \<Rightarrow> rat option" where
  "aggregate_max [] = None"
| "aggregate_max (x # xs) = Some (fold max xs x)"

text \<open>
  \<open>p ? parseFloat(p.toString()) : dflt\<close> on an aggregate: a Decimal object is truthy
  whatever its value, so only null takes the default.
\<close>

definition price_or :: "rat option \<Rightarrow> rat \<Rightarrow> rat" where
  "price_or p dflt = (case p of None \<Rightarrow> dflt | Some v \<Rightarrow> v)"

definition getCarFilters :: "store \<Rightarrow> CarFilters outcome" where
  "getCarFilters s =
     Success \<lparr>
       brands = distinct_asc brand s,
       bodyTypes = distinct_asc bodyType s,
       fuelTypes = distinct_asc fuelType s,
       transmissions = distinct_asc transmission s,
       priceRange = \<lparr>
         range_min = price_or (aggregate_min (map price (available s))) 0,
         range_max = price_or (aggregate_max (map price (available s))) 100000 \<rparr> \<rparr>"

section \<open>Search: getCars\<close>

text \<open>
  \<open>minPrice\<close> and \<open>maxPrice\<close> are \<open>string | number\<close>. A string is truthy when it is not
  empty, a number when it is neither NaN nor zero.
\<close>

datatype price_param = PStr string | PNum jsnum

fun truthy_param :: "price_param \<Rightarrow> bool" where
  "truthy_param (PStr s) = truthy_str s"
| "truthy_param (PNum n) = truthy_num n"

text \<open>
  \<open>parseFloat(x as string)\<close>. The runtime's \<open>parseFloat\<close> on strings is a parameter \<open>pf\<close>
  of the model; on a number it converts the number to a string and reads it back, which
  gives the number.
\<close>

fun parseFloat_param :: "(string \<Rightarrow> jsnum) \<Rightarrow> price_param \<Rightarrow> jsnum" where
  "parseFloat_param pf (PStr s) = pf s"
| "parseFloat_param pf (PNum n) = n"

datatype SortBy = Newest | PriceAsc | PriceDesc

text \<open>
  The arguments of getCars after defaulting (\<open>search = ""\<close>, ..., \<open>page = 1\<close>, \<open>limit = 6\<close>).
  \<open>page\<close> and \<open>limit\<close> are integers: the store takes \<open>take\<close> and \<open>skip\<close> as \<open>Int\<close>.
  The product \<open>(page - 1) * limit\<close> is kept exact; the runtime rounds products from
  \<open>2^53\<close> on.
\<close>

record GetCarsParams =
  p_search :: string
  p_brand :: string
  p_bodyType :: string
  p_fuelType :: string
  p_transmission :: string
  p_minPrice :: price_param
  p_maxPrice :: price_param
  p_sortBy :: SortBy
  p_page :: int
  p_limit :: int

text \<open>
  \<open>Prisma.CarWhereInput\<close> as getCars fills it. An absent key (\<open>None\<close>) constrains nothing.
  \<open>where_OR\<close> holds the search term of the three \<open>contains\<close> alternatives.
\<close>

record CarWhere =
  where_status :: CarStatus
  where_OR :: "string option"
  where_brand :: "string option"
  where_bodyType :: "string option"
  where_fuelType :: "string option"
  where_transmission :: "string option"
  where_price_gte :: jsnum
  where_price_lte :: "jsnum option"

definition if_truthy :: "string \<Rightarrow> string option" where
  "if_truthy x = (if truthy_str x then Some x else None)"

definition buildWhere :: "(string \<Rightarrow> jsnum) \<Rightarrow> GetCarsParams \<Rightarrow> CarWhere" where
  "buildWhere pf p = \<lparr>
     where_status = AVAILABLE,
     where_OR = if_truthy (p_search p),
     where_brand = if_truthy (p_brand p),
     where_bodyType = if_truthy (p_bodyType p),
     where_fuelType = if_truthy (p_fuelType p),
     where_transmission = if_truthy (p_transmission p),
     where_price_gte = num_or (parseFloat_param pf (p_minPrice p)) (Fin 0),
     where_price_lte =
       (if truthy_param (p_maxPrice p) \<and> truthy_param (p_maxPrice p)
        then Some (parseFloat_param pf (p_maxPrice p)) else None) \<rparr>"

subsection \<open>The store's evaluation of a car query\<close>

text \<open>
  \<open>mode: "insensitive"\<close> makes the store evaluate \<open>contains\<close> and \<open>equals\<close> with its
  case-insensitive pattern operator \<open>ILIKE\<close>, and the term goes into the pattern as it is:
  in it \<open>%\<close> stands for any run of characters, \<open>_\<close> for any one character, and a
  backslash takes the character after it literally. Letter case is that of the ASCII
  letters here.
\<close>

definition lower_char :: "char \<Rightarrow> char" where
  "lower_char c =
     (case map_of (zip ''ABCDEFGHIJKLMNOPQRSTUVWXYZ'' ''abcdefghijklmnopqrstuvwxyz'') c of
        Some l \<Rightarrow> l
      | None \<Rightarrow> c)"

definition lower_str :: "string \<Rightarrow> string" where
  "lower_str s = map lower_char s"

text \<open>
  \<open>like_match pattern text\<close>. A pattern that ends in a lone backslash matches nothing
  here; the store raises an error if matching gets as far as that backslash with text
  left.
\<close>

fun like_match :: "string \<Rightarrow> string \<Rightarrow> bool" where
  "like_match [] t = (t = [])"
| "like_match (p # ps) t =
     (if p = CHR ''%'' then
        (like_match ps t \<or> (case t of [] \<Rightarrow> False | c # cs \<Rightarrow> like_match (p # ps) cs))
      else if p = CHR ''_'' then
        (case t of [] \<Rightarrow> False | c # cs \<Rightarrow> like_match ps cs)
      else if p = CHR 0x5C then
        (case ps of [] \<Rightarrow> False
         | q # qs \<Rightarrow> (case t of [] \<Rightarrow> False | c # cs \<Rightarrow> q = c \<and> like_match qs cs))
      else
        (case t of [] \<Rightarrow> False | c # cs \<Rightarrow> p = c \<and> like_match ps cs))"

definition ilike :: "string \<Rightarrow> string \<Rightarrow> bool" where
  "ilike field pattern = like_match (lower_str pattern) (lower_str field)"

definition contains_insensitive :: "string \<Rightarrow> string \<Rightarrow> bool" where
  "contains_insensitive field q = ilike field (''%'' @ q @ ''%'')"

definition equals_insensitive :: "string \<Rightarrow> string \<Rightarrow> bool" where
  "equals_insensitive field q = ilike field q"

definition opt_equals :: "string option \<Rightarrow> string \<Rightarrow> bool" where
  "opt_equals w field = (case w of None \<Rightarrow> True | Some q \<Rightarrow> equals_insensitive field q)"

fun is_finite :: "jsnum \<Rightarrow> bool" where
  "is_finite (Fin r) = True"
| "is_finite n = False"

fun price_gte :: "rat \<Rightarrow> jsnum \<Rightarrow> bool" where
  "price_gte x (Fin r) = (r \<le> x)"
| "price_gte x n = False"

fun price_lte :: "rat \<Rightarrow> jsnum option \<Rightarrow> bool" where
  "price_lte x None = True"
| "price_lte x (Some (Fin r)) = (x \<le> r)"
| "price_lte x (Some n) = False"

definition matches :: "CarWhere \<Rightarrow> Car \<Rightarrow> bool" where
  "matches w c =
     (status c = where_status w
      \<and> (case where_OR w of None \<Rightarrow> True
          | Some q \<Rightarrow> contains_insensitive (brand c) q
                     \<or> contains_insensitive (model c) q
                     \<or> contains_insensitive (description c) q)
      \<and> opt_equals (where_brand w) (brand c)
      \<and> opt_equals (where_bodyType w) (bodyType c)
      \<and> opt_equals (where_fuelType w) (fuelType c)
      \<and> opt_equals (where_transmission w) (transmission c)
      \<and> price_gte (price c) (where_price_gte w)
      \<and> price_lte (price c) (where_price_lte w))"

text \<open>
  A Decimal column is compared with a Decimal: the store rejects a query whose bound is
  NaN or infinite.
\<close>

definition where_valid :: "CarWhere \<Rightarrow> bool" where
  "where_valid w =
     (is_finite (where_price_gte w)
      \<and> (case where_price_lte w of None \<Rightarrow> True | Some n \<Rightarrow> is_finite n))"

definition car_count :: "store \<Rightarrow> CarWhere \<Rightarrow> store_error + nat" where
  "car_count s w =
     (if where_valid w then Inr (length (filter (matches w) (cars s))) else Inl InvalidNumber)"

datatype CarOrderBy = OrderPriceAsc | OrderPriceDesc | OrderCreatedAtDesc

fun order_cars :: "CarOrderBy \<Rightarrow> Car list \<Rightarrow> Car list" where
  "order_cars OrderPriceAsc rows = sort_key price rows"
| "order_cars OrderPriceDesc rows = sort_key (\<lambda>c. - price c) rows"
| "order_cars OrderCreatedAtDesc rows = sort_key (\<lambda>c. - int (car_createdAt c)) rows"

text \<open>
  \<open>take\<close> and \<open>skip\<close> on the ordered rows. A negative \<open>take\<close> counts from the end of the
  list; a negative \<open>skip\<close> is rejected, and so is a \<open>take\<close> or \<open>skip\<close> that is not a
  64-bit integer.
\<close>

definition int64 :: "int \<Rightarrow> bool" where
  "int64 x = (- (2 ^ 63) \<le> x \<and> x < 2 ^ 63)"

definition take_skip :: "int \<Rightarrow> int \<Rightarrow> 'a list \<Rightarrow> 'a list" where
  "take_skip tk sk rows =
     (if 0 \<le> tk then take (nat tk) (drop (nat sk) rows)
      else rev (take (nat (- tk)) (drop (nat sk) (rev rows))))"

definition car_findMany ::
  "store \<Rightarrow> CarWhere \<Rightarrow> CarOrderBy \<Rightarrow> int \<Rightarrow> int \<Rightarrow> store_error + Car list" where
  "car_findMany s w ob tk sk =
     (if \<not> where_valid w then Inl InvalidNumber
      else if sk < 0 then Inl NegativeSkip
      else if \<not> int64 sk \<or> \<not> int64 tk then Inl OutOfRange
      else Inr (take_skip tk sk (order_cars ob (filter (matches w) (cars s)))))"

definition user_findUnique_clerk :: "store \<Rightarrow> string \<Rightarrow> User option" where
  "user_findUnique_clerk s uid = find (\<lambda>u. clerkUserId u = uid) (users s)"

definition car_findUnique :: "store \<Rightarrow> ident \<Rightarrow> Car option" where
  "car_findUnique s cid = find (\<lambda>c. car_id c = cid) (cars s)"

definition savedCar_findUnique :: "store \<Rightarrow> ident \<Rightarrow> ident \<Rightarrow> UserSavedCar option" where
  "savedCar_findUnique s uid cid =
     find (\<lambda>sv. saved_userId sv = uid \<and> saved_carId sv = cid) (savedCars s)"

subsection \<open>The action\<close>

text \<open>
  Modelled from the spec: \<open>serializeCarData(car, wishlisted)\<close> of \<open>lib/helper\<close> is not
  among the sources. By the spec it returns the listing, its price as a plain number and
  its timestamps as strings, flagged with the wishlist flag it is given.
\<close>

record SerializedCar =
  listing :: Car
  wishlisted :: bool

definition serializeCarData :: "Car \<Rightarrow> bool \<Rightarrow> SerializedCar" where
  "serializeCarData c w = \<lparr> listing = c, wishlisted = w \<rparr>"

record Pagination =
  total :: nat
  page :: int
  limit :: int
  pages :: jsnum

record GetCarsResult =
  data :: "SerializedCar list"
  pagination :: Pagination

text \<open>\<open>Math.ceil(totalCars / limit)\<close>. Division by zero gives NaN or Infinity.\<close>

definition ceil_div :: "nat \<Rightarrow> int \<Rightarrow> jsnum" where
  "ceil_div n d =
     (if d = 0 then (if n = 0 then NaN else PosInf)
      else Fin (of_int \<lceil>rat_of_nat n / rat_of_int d\<rceil>))"

fun orderBy_of :: "SortBy \<Rightarrow> CarOrderBy" where
  "orderBy_of PriceAsc = OrderPriceAsc"
| "orderBy_of PriceDesc = OrderPriceDesc"
| "orderBy_of Newest = OrderCreatedAtDesc"

text \<open>
  \<open>auth()\<close> gives the caller's identity-provider id or null: the \<open>caller\<close> argument.
  \<open>if (userId) dbUser = findUnique(...)\<close>.
\<close>

definition dbUser :: "store \<Rightarrow> string option \<Rightarrow> User option" where
  "dbUser s caller =
     (case caller of None \<Rightarrow> None
      | Some userId \<Rightarrow> if truthy_str userId then user_findUnique_clerk s userId else None)"

definition wishlist_of :: "store \<Rightarrow> User option \<Rightarrow> ident set" where
  "wishlist_of s u =
     (case u of None \<Rightarrow> {}
      | Some user \<Rightarrow>
          set (map saved_carId (filter (\<lambda>sv. saved_userId sv = user_id user) (savedCars s))))"

definition getCars ::
  "(string \<Rightarrow> jsnum) \<Rightarrow> store \<Rightarrow> string option \<Rightarrow> GetCarsParams \<Rightarrow> GetCarsResult outcome" where
  "getCars pf s caller p =
     (let w = buildWhere pf p;
          skip = (p_page p - 1) * p_limit p;
          orderBy = orderBy_of (p_sortBy p)
      in case car_count s w of
           Inl e \<Rightarrow> Thrown (StoreFailure e)
         | Inr totalCars \<Rightarrow>
             (case car_findMany s w orderBy (p_limit p) skip of
                Inl e \<Rightarrow> Thrown (StoreFailure e)
              | Inr rows \<Rightarrow>
                  Success \<lparr>
                    data = map (\<lambda>c. serializeCarData c
                                  (car_id c \<in> wishlist_of s (dbUser s caller))) rows,
                    pagination = \<lparr>
                      total = totalCars,
                      page = p_page p,
                      limit = p_limit p,
                      pages = ceil_div totalCars (p_limit p) \<rparr> \<rparr>))"

section \<open>Wishlist: toggleSavedCar\<close>

text \<open>
  \<open>userSavedCar.delete\<close> and \<open>userSavedCar.create\<close> on the pair key
  \<open>@@unique([userId, carId])\<close>. Deleting an absent row and creating a present one fail.
\<close>

definition same_pair :: "ident \<Rightarrow> ident \<Rightarrow> UserSavedCar \<Rightarrow> bool" where
  "same_pair uid cid sv = (saved_userId sv = uid \<and> saved_carId sv = cid)"

definition savedCar_delete :: "store \<Rightarrow> ident \<Rightarrow> ident \<Rightarrow> store_error + store" where
  "savedCar_delete s uid cid =
     (case savedCar_findUnique s uid cid of
        None \<Rightarrow> Inl RecordNotFound
      | Some sv \<Rightarrow>
          Inr (s\<lparr>savedCars := filter (\<lambda>sv. \<not> same_pair uid cid sv) (savedCars s)\<rparr>))"

definition savedCar_create :: "store \<Rightarrow> ident \<Rightarrow> ident \<Rightarrow> store_error + store" where
  "savedCar_create s uid cid =
     (case savedCar_findUnique s uid cid of
        Some sv \<Rightarrow> Inl UniqueViolation
      | None \<Rightarrow>
          Inr (s\<lparr>savedCars := savedCars s @ [\<lparr>saved_userId = uid, saved_carId = cid\<rparr>]\<rparr>))"

record ToggleSavedCarResult =
  saved :: bool
  message :: string

text \<open>
  The action returns its result together with the store it leaves behind.
  \<open>revalidatePath\<close> only invalidates a page cache and is not modelled.
\<close>

definition toggleSavedCar ::
  "store \<Rightarrow> string option \<Rightarrow> ident \<Rightarrow> ToggleSavedCarResult outcome \<times> store" where
  "toggleSavedCar s caller carId =
     (case caller of
        None \<Rightarrow> (Thrown Unauthorized, s)
      | Some userId \<Rightarrow>
          if \<not> truthy_str userId then (Thrown Unauthorized, s)
          else
            (case user_findUnique_clerk s userId of
               None \<Rightarrow> (Thrown UserNotFound, s)
             | Some user \<Rightarrow>
                 (case car_findUnique s carId of
                    None \<Rightarrow> (Failure CarNotFound, s)
                  | Some car \<Rightarrow>
                      (case savedCar_findUnique s (user_id user) carId of
                         Some existingSave \<Rightarrow>
                           (case savedCar_delete s (user_id user) carId of
                              Inl e \<Rightarrow> (Thrown (StoreFailure e), s)
                            | Inr s' \<Rightarrow>
                                (Success \<lparr>saved = False,
                                   message = ''Car removed from favorites''\<rparr>, s'))
                       | None \<Rightarrow>
                           (case savedCar_create s (user_id user) carId of
                              Inl e \<Rightarrow> (Thrown (StoreFailure e), s)
                            | Inr s' \<Rightarrow>
                                (Success \<lparr>saved = True,
                                   message = ''Car added to favorites''\<rparr>, s'))))))"

text \<open>Whether the pair is in the wishlist table.\<close>

definition is_saved :: "store \<Rightarrow> ident \<Rightarrow> ident \<Rightarrow> bool" where
  "is_saved s uid cid = (savedCar_findUnique s uid cid \<noteq> None)"

section \<open>Listing detail: getCarById\<close>

text \<open>
  The \<open>where\<close> of \<open>testDriveBooking.findFirst\<close>. The key \<open>userId\<close> is \<open>dbUser?.id\<close>, which
  is undefined when there is no user record; the store leaves a key that is undefined
  out of the filter.
\<close>

record BookingWhere =
  bw_carId :: ident
  bw_userId :: "ident option"
  bw_status_in :: "BookingStatus list"

definition booking_matches :: "BookingWhere \<Rightarrow> TestDriveBooking \<Rightarrow> bool" where
  "booking_matches w b =
     (booking_carId b = bw_carId w
      \<and> (case bw_userId w of None \<Rightarrow> True | Some uid \<Rightarrow> booking_userId b = uid)
      \<and> booking_status b \<in> set (bw_status_in w))"

text \<open>\<open>findFirst({where, orderBy: {createdAt: "desc"}})\<close>.\<close>

definition testDrive_findFirst :: "store \<Rightarrow> BookingWhere \<Rightarrow> TestDriveBooking option" where
  "testDrive_findFirst s w =
     (case sort_key (\<lambda>b. - int (booking_createdAt b)) (filter (booking_matches w) (testDrives s)) of
        [] \<Rightarrow> None
      | b # bs \<Rightarrow> Some b)"

text \<open>\<open>dealershipInfo.findFirst()\<close>: the first row, if any.\<close>

definition dealership_findFirst :: "store \<Rightarrow> DealershipInfo option" where
  "dealership_findFirst s = (case dealerships s of [] \<Rightarrow> None | d # ds \<Rightarrow> Some d)"

record UserTestDrive =
  td_id :: ident
  td_status :: BookingStatus
  td_bookingDate :: nat

record TestDriveInfo =
  userTestDrive :: "UserTestDrive option"
  dealership :: "DealershipInfo option"

record CarDetails =
  details_car :: SerializedCar
  testDriveInfo :: TestDriveInfo

definition getCarById :: "store \<Rightarrow> string option \<Rightarrow> ident \<Rightarrow> CarDetails outcome" where
  "getCarById s caller carId =
     (let user = dbUser s caller in
      case car_findUnique s carId of
        None \<Rightarrow> Failure CarNotFound
      | Some car \<Rightarrow>
          (let isWishlisted =
                 (case user of None \<Rightarrow> False
                  | Some u \<Rightarrow> savedCar_findUnique s (user_id u) carId \<noteq> None);
               existingTestDrive = testDrive_findFirst s
                 \<lparr>bw_carId = carId,
                  bw_userId = map_option user_id user,
                  bw_status_in = [PENDING, CONFIRMED, COMPLETED]\<rparr>;
               userTestDrive =
                 (case existingTestDrive of None \<Rightarrow> None
                  | Some b \<Rightarrow> Some \<lparr>td_id = booking_id b, td_status = booking_status b,
                                    td_bookingDate = bookingDate b\<rparr>)
           in Success \<lparr>
                details_car = serializeCarData car isWishlisted,
                testDriveInfo = \<lparr>userTestDrive = userTestDrive,
                                 dealership = dealership_findFirst s\<rparr> \<rparr>))"

section \<open>Settings: getDealershipInfo, saveWorkingHours, updateUserRole\<close>

fun day_index :: "DayOfWeek \<Rightarrow> nat" where
  "day_index MONDAY = 0"
| "day_index TUESDAY = 1"
| "day_index WEDNESDAY = 2"
| "day_index THURSDAY = 3"
| "day_index FRIDAY = 4"
| "day_index SATURDAY = 5"
| "day_index SUNDAY = 6"

text \<open>\<open>include: {workingHours: {orderBy: {dayOfWeek: "asc"}}}\<close>: enum order is declaration order.\<close>

definition include_workingHours :: "DealershipInfo \<Rightarrow> DealershipInfo" where
  "include_workingHours d =
     d\<lparr>workingHours := sort_key (\<lambda>h. day_index (dayOfWeek h)) (workingHours d)\<rparr>"

definition default_workingHours :: "WorkingHour list" where
  "default_workingHours =
     [\<lparr>dayOfWeek = MONDAY, openTime = ''09:00'', closeTime = ''18:00'', isOpen = True\<rparr>,
      \<lparr>dayOfWeek = TUESDAY, openTime = ''09:00'', closeTime = ''18:00'', isOpen = True\<rparr>,
      \<lparr>dayOfWeek = WEDNESDAY, openTime = ''09:00'', closeTime = ''18:00'', isOpen = True\<rparr>,
      \<lparr>dayOfWeek = THURSDAY, openTime = ''09:00'', closeTime = ''18:00'', isOpen = True\<rparr>,
      \<lparr>dayOfWeek = FRIDAY, openTime = ''09:00'', closeTime = ''18:00'', isOpen = True\<rparr>,
      \<lparr>dayOfWeek = SATURDAY, openTime = ''10:00'', closeTime = ''16:00'', isOpen = True\<rparr>,
      \<lparr>dayOfWeek = SUNDAY, openTime = ''10:00'', closeTime = ''16:00'', isOpen = False\<rparr>]"

text \<open>
  \<open>dealershipInfo.create({data: {workingHours: {create: hours}}})\<close>. The scalar columns
  take the defaults of the schema; \<open>newId\<close> and \<open>now\<close> stand for what \<open>uuid()\<close> and
  \<open>now()\<close> give. The primary key and \<open>@@unique([dealershipId, dayOfWeek])\<close> are checked.
\<close>

definition dealership_create ::
  "store \<Rightarrow> ident \<Rightarrow> nat \<Rightarrow> WorkingHour list \<Rightarrow> store_error + (DealershipInfo \<times> store)" where
  "dealership_create s newId now hours =
     (if newId \<in> set (map dealership_id (dealerships s)) \<or> \<not> distinct (map dayOfWeek hours)
      then Inl UniqueViolation
      else
        (let d = \<lparr>dealership_id = newId,
                  dealership_name = ''Autora Motors'',
                  address = ''69 Car Street, MH,IN'',
                  phone = ''+91 12345 67890'',
                  dealership_email = ''contact@autora.com'',
                  workingHours = hours,
                  dealership_createdAt = now,
                  dealership_updatedAt = now\<rparr>
         in Inr (d, s\<lparr>dealerships := dealerships s @ [d]\<rparr>)))"

definition signed_in :: "string option \<Rightarrow> bool" where
  "signed_in caller = (case caller of None \<Rightarrow> False | Some userId \<Rightarrow> truthy_str userId)"

definition getDealershipInfo ::
  "store \<Rightarrow> string option \<Rightarrow> ident \<Rightarrow> nat \<Rightarrow> DealershipInfo outcome \<times> store" where
  "getDealershipInfo s caller newId now =
     (if \<not> signed_in caller then (Failure Unauthorized, s)
      else
        (case dealership_findFirst s of
           Some d \<Rightarrow> (Success (include_workingHours d), s)
         | None \<Rightarrow>
             (case dealership_create s newId now default_workingHours of
                Inl e \<Rightarrow> (Failure (StoreFailure e), s)
              | Inr (d, s') \<Rightarrow> (Success (include_workingHours d), s'))))"

text \<open>The admin check shared by the privileged actions: the caller's own row, looked up by
  the identity \<open>auth()\<close> returned.\<close>

definition is_admin :: "store \<Rightarrow> string \<Rightarrow> bool" where
  "is_admin s userId =
     (case user_findUnique_clerk s userId of None \<Rightarrow> False | Some user \<Rightarrow> role user = ADMIN)"

text \<open>\<open>workingHour.deleteMany({where: {dealershipId}})\<close> and \<open>workingHour.create\<close>.\<close>

definition workingHour_deleteMany :: "store \<Rightarrow> ident \<Rightarrow> store" where
  "workingHour_deleteMany s did =
     s\<lparr>dealerships :=
         map (\<lambda>d. if dealership_id d = did then d\<lparr>workingHours := []\<rparr> else d) (dealerships s)\<rparr>"

definition workingHour_create :: "store \<Rightarrow> ident \<Rightarrow> WorkingHour \<Rightarrow> store_error + store" where
  "workingHour_create s did hour =
     (case find (\<lambda>d. dealership_id d = did) (dealerships s) of
        None \<Rightarrow> Inl RecordNotFound
      | Some d0 \<Rightarrow>
          if dayOfWeek hour \<in> set (map dayOfWeek (workingHours d0)) then Inl UniqueViolation
          else Inr (s\<lparr>dealerships :=
                 map (\<lambda>d. if dealership_id d = did
                           then d\<lparr>workingHours := workingHours d @ [hour]\<rparr> else d)
                   (dealerships s)\<rparr>))"

text \<open>The loop \<open>for (const hour of workingHours) await create(...)\<close>: it stops at the first
  failure, and the rows created before it stay.\<close>

fun create_hours :: "store \<Rightarrow> ident \<Rightarrow> WorkingHour list \<Rightarrow> unit outcome \<times> store" where
  "create_hours s did [] = (Success (), s)"
| "create_hours s did (hour # rest) =
     (case workingHour_create s did hour of
        Inl e \<Rightarrow> (Failure (StoreFailure e), s)
      | Inr s' \<Rightarrow> create_hours s' did rest)"

definition saveWorkingHours ::
  "store \<Rightarrow> string option \<Rightarrow> WorkingHour list \<Rightarrow> unit outcome \<times> store" where
  "saveWorkingHours s caller hours =
     (case caller of
        None \<Rightarrow> (Failure Unauthorized, s)
      | Some userId \<Rightarrow>
          if \<not> truthy_str userId then (Failure Unauthorized, s)
          else if \<not> is_admin s userId then (Failure AdminRequired, s)
          else
            (case dealership_findFirst s of
               None \<Rightarrow> (Failure DealershipNotFound, s)
             | Some d \<Rightarrow>
                 create_hours (workingHour_deleteMany s (dealership_id d)) (dealership_id d) hours))"

text \<open>\<open>user.update({where: {id}, data: {role}})\<close>: fails when no row has the id.\<close>

definition user_update_role :: "store \<Rightarrow> ident \<Rightarrow> UserRole \<Rightarrow> store_error + store" where
  "user_update_role s uid r =
     (if uid \<in> set (map user_id (users s))
      then Inr (s\<lparr>users := map (\<lambda>u. if user_id u = uid then u\<lparr>role := r\<rparr> else u) (users s)\<rparr>)
      else Inl RecordNotFound)"

text \<open>
  \<open>updateUserRole(id, role)\<close>. The target role is \<open>None\<close> when the argument is missing
  (\<open>!role\<close>).
\<close>

definition updateUserRole ::
  "store \<Rightarrow> string option \<Rightarrow> ident \<Rightarrow> UserRole option \<Rightarrow> unit outcome \<times> store" where
  "updateUserRole s caller uid newRole =
     (if \<not> truthy_str uid then (Failure MissingUser, s)
      else
        (case newRole of
           None \<Rightarrow> (Failure MissingRole, s)
         | Some r \<Rightarrow>
             (case caller of
                None \<Rightarrow> (Failure Unauthorized, s)
              | Some adminId \<Rightarrow>
                  if \<not> truthy_str adminId then (Failure Unauthorized, s)
                  else if \<not> is_admin s adminId then (Failure AdminRequired, s)
                  else
                    (case user_update_role s uid r of
                       Inl e \<Rightarrow> (Failure (StoreFailure e), s)
                     | Inr s' \<Rightarrow> (Success (), s')))))"

section \<open>Example data\<close>

text \<open>
  An instance of the \<open>parseFloat\<close> parameter for the examples: the value of a leading run
  of ASCII digits, NaN when the string does not start with a digit. It is what
  \<open>parseFloat\<close> returns on a string of digits.
\<close>

definition is_digit :: "char \<Rightarrow> bool" where
  "is_digit c = (48 \<le> (of_char c :: nat) \<and> (of_char c :: nat) \<le> 57)"

definition parseFloat_digits :: "string \<Rightarrow> jsnum" where
  "parseFloat_digits s =
     (if takeWhile is_digit s = [] then NaN
      else Fin (of_nat (foldl (\<lambda>a c. 10 * a + ((of_char c :: nat) - 48)) 0 (takeWhile is_digit s))))"

definition ex_alice :: User where
  "ex_alice = \<lparr>user_id = ''u1'', clerkUserId = ''clerk_alice'',
     email = ''alice@example.com'', role = USER\<rparr>"

definition ex_bob :: User where
  "ex_bob = \<lparr>user_id = ''u2'', clerkUserId = ''clerk_bob'',
     email = ''bob@example.com'', role = ADMIN\<rparr>"

definition ex_honda :: Car where
  "ex_honda = \<lparr>car_id = ''c1'', brand = ''Honda'', model = ''Civic'', price = 10000,
     fuelType = ''Petrol'', transmission = ''Manual'', bodyType = ''Sedan'',
     description = ''A compact car'', status = AVAILABLE, car_createdAt = 1\<rparr>"

definition ex_toyota :: Car where
  "ex_toyota = \<lparr>car_id = ''c2'', brand = ''Toyota'', model = ''Corolla'', price = 20000,
     fuelType = ''Hybrid'', transmission = ''Automatic'', bodyType = ''Sedan'',
     description = ''A family car'', status = AVAILABLE, car_createdAt = 2\<rparr>"

definition ex_bmw :: Car where
  "ex_bmw = \<lparr>car_id = ''c3'', brand = ''BMW'', model = ''X5'', price = 50000,
     fuelType = ''Diesel'', transmission = ''Automatic'', bodyType = ''SUV'',
     description = ''Sold last week'', status = SOLD, car_createdAt = 3\<rparr>"

definition ex_booking :: TestDriveBooking where
  "ex_booking = \<lparr>booking_id = ''b1'', booking_carId = ''c1'', booking_userId = ''u2'',
     bookingDate = 20, booking_status = PENDING, booking_createdAt = 5\<rparr>"

text \<open>Bob has saved the Honda and booked a test drive on it; there is no dealership row.\<close>

definition ex_store :: store where
  "ex_store = \<lparr>users = [ex_alice, ex_bob],
     cars = [ex_honda, ex_toyota, ex_bmw],
     savedCars = [\<lparr>saved_userId = ''u2'', saved_carId = ''c1''\<rparr>],
     testDrives = [ex_booking],
     dealerships = []\<rparr>"

definition empty_store :: store where
  "empty_store = \<lparr>users = [], cars = [], savedCars = [], testDrives = [], dealerships = []\<rparr>"

text \<open>getCars called with no argument: every parameter at its default.\<close>

definition default_params :: GetCarsParams where
  "default_params = \<lparr>p_search = [], p_brand = [], p_bodyType = [], p_fuelType = [],
     p_transmission = [], p_minPrice = PStr [], p_maxPrice = PStr [],
     p_sortBy = Newest, p_page = 1, p_limit = 6\<rparr>"



section \<open>Properties of getCarFilters\<close>

lemma distinct_asc_sorted: "sorted (distinct_asc f s)"
  by (simp add: distinct_asc_def)

lemma distinct_asc_distinct: "distinct (distinct_asc f s)"
  by (simp add: distinct_asc_def)

lemma distinct_asc_set: "set (distinct_asc f s) = f ` set (available s)"
  by (simp add: distinct_asc_def)

lemma aggregate_min_Min: "xs \<noteq> [] \<Longrightarrow> aggregate_min xs = Some (Min (set xs))"
proof (cases xs)
  case Nil
  assume "xs \<noteq> []"
  with Nil show ?thesis by simp
next
  case (Cons y ys)
  show ?thesis using Min.set_eq_fold [of y ys] by (simp add: Cons)
qed

lemma aggregate_max_Max: "xs \<noteq> [] \<Longrightarrow> aggregate_max xs = Some (Max (set xs))"
proof (cases xs)
  case Nil
  assume "xs \<noteq> []"
  with Nil show ?thesis by simp
next
  case (Cons y ys)
  show ?thesis using Max.set_eq_fold [of y ys] by (simp add: Cons)
qed

lemma set_available: "set (available s) = {c \<in> set (cars s). status c = AVAILABLE}"
  by (auto simp: available_def)

lemma price_range_empty:
  assumes "available s = []"
  shows "price_or (aggregate_min (map price (available s))) 0 = 0"
    and "price_or (aggregate_max (map price (available s))) 100000 = 100000"
  using assms by (simp_all add: price_or_def)

lemma price_range_nonempty:
  assumes "available s \<noteq> []"
  shows "price_or (aggregate_min (map price (available s))) d = Min (price ` set (available s))"
    and "price_or (aggregate_max (map price (available s))) d = Max (price ` set (available s))"
  using assms aggregate_min_Min [of "map price (available s)"]
    aggregate_max_Max [of "map price (available s)"]
  by (simp_all add: price_or_def)

lemma Min_le_Max_image:
  assumes "xs \<noteq> []"
  shows "Min (f ` set xs) \<le> (Max (f ` set xs) :: rat)"
proof -
  from assms obtain x where x: "x \<in> set xs" by (cases xs) auto
  have "Min (f ` set xs) \<le> f x" using x by (intro Min_le) auto
  also have "f x \<le> Max (f ` set xs)" using x by (intro Max_ge) auto
  finally show ?thesis .
qed

text \<open>
  C6. getCarFilters always succeeds. Each of its four facet lists is sorted ascending
  (strings compared character code by character code), has no repetition, and holds
  exactly the values of that column over the cars whose status is AVAILABLE. The price range is the minimum and maximum price over those same cars, or
  0 and 100000 when there is none; in both cases the minimum is at most the maximum.
\<close>

theorem getCarFilters_facets:
  "\<exists>d. getCarFilters s = Success d
     \<and> sorted (brands d) \<and> distinct (brands d)
     \<and> set (brands d) = brand ` {c \<in> set (cars s). status c = AVAILABLE}
     \<and> sorted (bodyTypes d) \<and> distinct (bodyTypes d)
     \<and> set (bodyTypes d) = bodyType ` {c \<in> set (cars s). status c = AVAILABLE}
     \<and> sorted (fuelTypes d) \<and> distinct (fuelTypes d)
     \<and> set (fuelTypes d) = fuelType ` {c \<in> set (cars s). status c = AVAILABLE}
     \<and> sorted (transmissions d) \<and> distinct (transmissions d)
     \<and> set (transmissions d) = transmission ` {c \<in> set (cars s). status c = AVAILABLE}
     \<and> range_min (priceRange d) =
           (if {c \<in> set (cars s). status c = AVAILABLE} = {} then 0
            else Min (price ` {c \<in> set (cars s). status c = AVAILABLE}))
     \<and> range_max (priceRange d) =
           (if {c \<in> set (cars s). status c = AVAILABLE} = {} then 100000
            else Max (price ` {c \<in> set (cars s). status c = AVAILABLE}))
     \<and> range_min (priceRange d) \<le> range_max (priceRange d)"
proof -
  let ?lo = "price_or (aggregate_min (map price (available s))) 0"
  let ?hi = "price_or (aggregate_max (map price (available s))) 100000"
  have lo: "?lo = (if set (available s) = {} then 0 else Min (price ` set (available s)))"
  proof (cases "available s = []")
    case True
    then show ?thesis using price_range_empty(1) [of s] by simp
  next
    case False
    then show ?thesis using price_range_nonempty(1) [OF False, of 0] by simp
  qed
  have hi: "?hi = (if set (available s) = {} then 100000 else Max (price ` set (available s)))"
  proof (cases "available s = []")
    case True
    then show ?thesis using price_range_empty(2) [of s] by simp
  next
    case False
    then show ?thesis using price_range_nonempty(2) [OF False, of 100000] by simp
  qed
  have le: "?lo \<le> ?hi"
  proof (cases "available s = []")
    case True
    then show ?thesis by (simp add: price_or_def)
  next
    case False
    then show ?thesis
      using price_range_nonempty [OF False] Min_le_Max_image [OF False, of price] by simp
  qed
  show ?thesis
    unfolding getCarFilters_def set_available [symmetric]
    using lo hi le
    by (simp add: distinct_asc_sorted distinct_asc_distinct distinct_asc_set)
qed

section \<open>Properties of getCars\<close>


lemma set_order_cars: "set (order_cars ob rows) = set rows"
  by (cases ob) simp_all


lemma set_take_skip: "set (take_skip tk sk rows) \<subseteq> set rows"
proof (cases "0 \<le> tk")
  case True
  have "set (take (nat tk) (drop (nat sk) rows)) \<subseteq> set (drop (nat sk) rows)"
    by (rule set_take_subset)
  also have "\<dots> \<subseteq> set rows" by (rule set_drop_subset)
  finally show ?thesis using True by (simp add: take_skip_def)
next
  case False
  have "set (take (nat (- tk)) (drop (nat sk) (rev rows))) \<subseteq> set (drop (nat sk) (rev rows))"
    by (rule set_take_subset)
  also have "\<dots> \<subseteq> set (rev rows)" by (rule set_drop_subset)
  finally show ?thesis using False by (simp add: take_skip_def)
qed


text \<open>The three ways getCars ends.\<close>

lemma getCars_invalid:
  assumes "\<not> where_valid (buildWhere pf p)"
  shows "getCars pf s caller p = Thrown (StoreFailure InvalidNumber)"
  using assms by (simp add: getCars_def car_count_def)

lemma getCars_negative_skip:
  assumes "where_valid (buildWhere pf p)" and "(p_page p - 1) * p_limit p < 0"
  shows "getCars pf s caller p = Thrown (StoreFailure NegativeSkip)"
  using assms by (simp add: getCars_def car_count_def car_findMany_def)


lemma getCars_out_of_range:
  assumes "where_valid (buildWhere pf p)" and "0 \<le> (p_page p - 1) * p_limit p"
    and "\<not> int64 ((p_page p - 1) * p_limit p) \<or> \<not> int64 (p_limit p)"
  shows "getCars pf s caller p = Thrown (StoreFailure OutOfRange)"
  using assms by (simp add: getCars_def car_count_def car_findMany_def)

lemma getCars_success:
  assumes "where_valid (buildWhere pf p)" and "0 \<le> (p_page p - 1) * p_limit p"
    and "int64 ((p_page p - 1) * p_limit p)" and "int64 (p_limit p)"
  shows "getCars pf s caller p =
     Success \<lparr>
       data = map (\<lambda>c. serializeCarData c (car_id c \<in> wishlist_of s (dbUser s caller)))
                (take_skip (p_limit p) ((p_page p - 1) * p_limit p)
                   (order_cars (orderBy_of (p_sortBy p))
                      (filter (matches (buildWhere pf p)) (cars s)))),
       pagination = \<lparr>
         total = length (filter (matches (buildWhere pf p)) (cars s)),
         page = p_page p,
         limit = p_limit p,
         pages = ceil_div (length (filter (matches (buildWhere pf p)) (cars s))) (p_limit p) \<rparr> \<rparr>"
  using assms by (simp add: getCars_def car_count_def car_findMany_def Let_def)

lemma getCars_Success_D:
  assumes "getCars pf s caller p = Success r"
  shows "where_valid (buildWhere pf p)" and "0 \<le> (p_page p - 1) * p_limit p"
    and "int64 ((p_page p - 1) * p_limit p)" and "int64 (p_limit p)"
proof -
  show v: "where_valid (buildWhere pf p)"
  proof (rule ccontr)
    assume "\<not> where_valid (buildWhere pf p)"
    from getCars_invalid [OF this, of s caller] assms show False by simp
  qed
  show n: "0 \<le> (p_page p - 1) * p_limit p"
  proof (rule ccontr)
    assume "\<not> 0 \<le> (p_page p - 1) * p_limit p"
    then have "(p_page p - 1) * p_limit p < 0" by simp
    from getCars_negative_skip [OF v this, of s caller] assms show False by simp
  qed
  have "\<not> (\<not> int64 ((p_page p - 1) * p_limit p) \<or> \<not> int64 (p_limit p))"
  proof
    assume "\<not> int64 ((p_page p - 1) * p_limit p) \<or> \<not> int64 (p_limit p)"
    from getCars_out_of_range [OF v n this, of s caller] assms show False by simp
  qed
  then show "int64 ((p_page p - 1) * p_limit p)" and "int64 (p_limit p)" by simp_all
qed



lemma default_where_valid: "where_valid (buildWhere parseFloat_digits default_params)"
  by (simp add: where_valid_def buildWhere_def default_params_def parseFloat_digits_def
      num_or_def truthy_num_def truthy_str_def)



lemma buildWhere_page [simp]: "buildWhere pf (p\<lparr>p_page := k\<rparr>) = buildWhere pf p"
  by (simp add: buildWhere_def)

lemma buildWhere_limit [simp]: "buildWhere pf (p\<lparr>p_limit := k\<rparr>) = buildWhere pf p"
  by (simp add: buildWhere_def)

text \<open>
  C4 (amended). With \<open>page \<le> 0\<close> and \<open>limit \<ge> 1\<close> the skip \<open>(page - 1) * limit\<close> is negative
  and goes to the store as it is: getCars throws a store failure. Nothing treats such a page
  as page 1.
\<close>

theorem getCars_page_not_positive:
  assumes "p_page p \<le> 0" and "1 \<le> p_limit p"
  shows "(p_page p - 1) * p_limit p < 0
     \<and> (getCars pf s caller p = Thrown (StoreFailure NegativeSkip)
        \<or> getCars pf s caller p = Thrown (StoreFailure InvalidNumber))"
proof -
  have neg: "(p_page p - 1) * p_limit p < 0"
    using assms by (intro mult_neg_pos) simp_all
  show ?thesis
  proof (cases "where_valid (buildWhere pf p)")
    case True
    from getCars_negative_skip [OF True neg, of s caller] neg show ?thesis by simp
  next
    case False
    from getCars_invalid [OF False, of s caller] neg show ?thesis by simp
  qed
qed

theorem getCars_page_not_positive_witness:
  "p_page (default_params\<lparr>p_page := 0\<rparr>) \<le> 0 \<and> 1 \<le> p_limit (default_params\<lparr>p_page := 0\<rparr>)
   \<and> getCars parseFloat_digits ex_store None (default_params\<lparr>p_page := 0\<rparr>)
       = Thrown (StoreFailure NegativeSkip)"
proof -
  have a: "p_page (default_params\<lparr>p_page := 0\<rparr>) \<le> 0"
    and b: "1 \<le> p_limit (default_params\<lparr>p_page := 0\<rparr>)"
    by (simp_all add: default_params_def)
  have v: "where_valid (buildWhere parseFloat_digits (default_params\<lparr>p_page := 0\<rparr>))"
    using default_where_valid by simp
  have "getCars parseFloat_digits ex_store None (default_params\<lparr>p_page := 0\<rparr>)
      \<noteq> Thrown (StoreFailure InvalidNumber)"
    using v by (simp add: getCars_def car_count_def car_findMany_def Let_def)
  with getCars_page_not_positive [OF a b, of parseFloat_digits ex_store None] a b
  show ?thesis by simp
qed

text \<open>
  C4, counterexample. Page 0 throws, page 1 (the default) returns the two available cars.
\<close>

theorem getCars_page_zero_counterexample:
  "getCars parseFloat_digits ex_store None (default_params\<lparr>p_page := 0\<rparr>)
     = Thrown (StoreFailure NegativeSkip)
   \<and> getCars parseFloat_digits ex_store None (default_params\<lparr>p_page := 1\<rparr>)
     = Success \<lparr>data = [\<lparr>listing = ex_toyota, wishlisted = False\<rparr>,
                        \<lparr>listing = ex_honda, wishlisted = False\<rparr>],
                pagination = \<lparr>total = 2, page = 1, limit = 6, pages = Fin 1\<rparr>\<rparr>"
  by code_simp






lemma wishlist_of_None [simp]: "wishlist_of s None = {}"
  by (simp add: wishlist_of_def)

lemma getCars_caller_D:
  assumes "getCars pf s other p = Success r'"
  shows "getCars pf s caller p =
     Success (r'\<lparr>data := map (\<lambda>x. serializeCarData (listing x)
        (car_id (listing x) \<in> wishlist_of s (dbUser s caller))) (data r')\<rparr>)"
proof -
  note ok = getCars_Success_D [OF assms]
  from getCars_success [OF ok, of s other] assms
  have r': "r' = \<lparr>
       data = map (\<lambda>c. serializeCarData c (car_id c \<in> wishlist_of s (dbUser s other)))
                (take_skip (p_limit p) ((p_page p - 1) * p_limit p)
                   (order_cars (orderBy_of (p_sortBy p))
                      (filter (matches (buildWhere pf p)) (cars s)))),
       pagination = \<lparr>
         total = length (filter (matches (buildWhere pf p)) (cars s)),
         page = p_page p,
         limit = p_limit p,
         pages = ceil_div (length (filter (matches (buildWhere pf p)) (cars s))) (p_limit p) \<rparr> \<rparr>"
    by simp
  show ?thesis
    unfolding getCars_success [OF ok, of s caller]
    by (simp add: r' serializeCarData_def comp_def)
qed

text \<open>
  C10 (amended). Let the caller have no user record: \<open>auth()\<close> gave no identity, or no user
  row has it. Then the missing record never makes getCars fail: whenever the same call
  returns a result to any caller, it returns to this caller the same listings and
  pagination with every wishlist flag false. And no listing it returns is flagged,
  whatever the saved-car table holds.
\<close>

theorem getCars_without_user:
  assumes "dbUser s caller = None"
  shows "(\<forall>other r'. getCars pf s other p = Success r' \<longrightarrow>
            getCars pf s caller p =
              Success (r'\<lparr>data := map (\<lambda>x. x\<lparr>wishlisted := False\<rparr>) (data r')\<rparr>))
     \<and> (\<forall>r. getCars pf s caller p = Success r \<longrightarrow> (\<forall>x \<in> set (data r). \<not> wishlisted x))"
proof (intro conjI impI allI)
  fix other r'
  assume "getCars pf s other p = Success r'"
  from getCars_caller_D [OF this, of caller]
  show "getCars pf s caller p =
      Success (r'\<lparr>data := map (\<lambda>x. x\<lparr>wishlisted := False\<rparr>) (data r')\<rparr>)"
    by (simp add: assms serializeCarData_def)
next
  fix r
  assume run: "getCars pf s caller p = Success r"
  from getCars_caller_D [OF run, of caller] run
  have "r = r\<lparr>data := map (\<lambda>x. serializeCarData (listing x) False) (data r)\<rparr>"
    by (simp add: assms)
  then have "data r = map (\<lambda>x. serializeCarData (listing x) False) (data r)"
    by (metis GetCarsResult.select_convs(1) GetCarsResult.surjective GetCarsResult.update_convs(1))
  then have "map wishlisted (data r) = map (\<lambda>x. False) (data r)"
    by (metis (mono_tags, lifting) SerializedCar.select_convs(2) map_map comp_def serializeCarData_def map_eq_conv)
  then show "\<forall>x \<in> set (data r). \<not> wishlisted x"
    by (simp add: map_eq_conv)
qed

theorem getCars_without_user_witness:
  "dbUser ex_store None = None \<and> dbUser ex_store (Some ''clerk_carol'') = None
   \<and> getCars parseFloat_digits ex_store (Some ''clerk_bob'') default_params =
       Success \<lparr>data = [\<lparr>listing = ex_toyota, wishlisted = False\<rparr>,
                        \<lparr>listing = ex_honda, wishlisted = True\<rparr>],
                pagination = \<lparr>total = 2, page = 1, limit = 6, pages = Fin 1\<rparr>\<rparr>
   \<and> getCars parseFloat_digits ex_store None default_params =
       Success \<lparr>data = [\<lparr>listing = ex_toyota, wishlisted = False\<rparr>,
                        \<lparr>listing = ex_honda, wishlisted = False\<rparr>],
                pagination = \<lparr>total = 2, page = 1, limit = 6, pages = Fin 1\<rparr>\<rparr>
   \<and> getCars parseFloat_digits ex_store (Some ''clerk_carol'') default_params =
       Success \<lparr>data = [\<lparr>listing = ex_toyota, wishlisted = False\<rparr>,
                        \<lparr>listing = ex_honda, wishlisted = False\<rparr>],
                pagination = \<lparr>total = 2, page = 1, limit = 6, pages = Fin 1\<rparr>\<rparr>"
proof -
  have none: "dbUser ex_store None = None"
    by (simp add: dbUser_def)
  have carol: "dbUser ex_store (Some ''clerk_carol'') = None"
    by (simp add: dbUser_def truthy_str_def user_findUnique_clerk_def ex_store_def
        ex_alice_def ex_bob_def)
  have bob: "getCars parseFloat_digits ex_store (Some ''clerk_bob'') default_params =
       Success \<lparr>data = [\<lparr>listing = ex_toyota, wishlisted = False\<rparr>,
                        \<lparr>listing = ex_honda, wishlisted = True\<rparr>],
                pagination = \<lparr>total = 2, page = 1, limit = 6, pages = Fin 1\<rparr>\<rparr>"
    by code_simp
  note a = getCars_without_user [OF none, THEN conjunct1, rule_format, OF bob]
  note b = getCars_without_user [OF carol, THEN conjunct1, rule_format, OF bob]
  have a': "getCars parseFloat_digits ex_store None default_params =
       Success \<lparr>data = [\<lparr>listing = ex_toyota, wishlisted = False\<rparr>,
                        \<lparr>listing = ex_honda, wishlisted = False\<rparr>],
                pagination = \<lparr>total = 2, page = 1, limit = 6, pages = Fin 1\<rparr>\<rparr>"
    unfolding a by simp
  have b': "getCars parseFloat_digits ex_store (Some ''clerk_carol'') default_params =
       Success \<lparr>data = [\<lparr>listing = ex_toyota, wishlisted = False\<rparr>,
                        \<lparr>listing = ex_honda, wishlisted = False\<rparr>],
                pagination = \<lparr>total = 2, page = 1, limit = 6, pages = Fin 1\<rparr>\<rparr>"
    unfolding b by simp
  show ?thesis
    by (intro conjI none carol bob a' b')
qed

text \<open>
  C10, counterexample. A caller who is not signed in, and a signed-in caller without a
  user row, ask for page 0: getCars throws, it does not succeed.
\<close>

theorem getCars_without_user_counterexample:
  "dbUser ex_store None = None \<and> dbUser ex_store (Some ''clerk_carol'') = None
   \<and> getCars parseFloat_digits ex_store None (default_params\<lparr>p_page := 0\<rparr>)
       = Thrown (StoreFailure NegativeSkip)
   \<and> getCars parseFloat_digits ex_store (Some ''clerk_carol'') (default_params\<lparr>p_page := 0\<rparr>)
       = Thrown (StoreFailure NegativeSkip)"
  by code_simp

text \<open>
  C3, the failing input. \<open>maxPrice\<close> given as the number 0 is falsy, so no upper bound is
  set, and listings priced 20000 and 10000 are returned although the bound supplied is 0.
  The same bound given as the string \<open>"0"\<close> is applied: no listing is returned.
\<close>

theorem getCars_maxPrice_zero:
  "getCars parseFloat_digits ex_store None (default_params\<lparr>p_maxPrice := PNum (Fin 0)\<rparr>) =
     Success \<lparr>data = [\<lparr>listing = ex_toyota, wishlisted = False\<rparr>,
                      \<lparr>listing = ex_honda, wishlisted = False\<rparr>],
              pagination = \<lparr>total = 2, page = 1, limit = 6, pages = Fin 1\<rparr>\<rparr>
   \<and> price ex_toyota = 20000 \<and> price ex_honda = 10000
   \<and> getCars parseFloat_digits ex_store None (default_params\<lparr>p_maxPrice := PStr ''0''\<rparr>) =
     Success \<lparr>data = [],
              pagination = \<lparr>total = 0, page = 1, limit = 6, pages = Fin 0\<rparr>\<rparr>"
  by code_simp

section \<open>Properties of getCarFilters on the examples\<close>

theorem getCarFilters_facets_witness:
  "getCarFilters ex_store =
     Success \<lparr>brands = [''Honda'', ''Toyota''], bodyTypes = [''Sedan''],
              fuelTypes = [''Hybrid'', ''Petrol''], transmissions = [''Automatic'', ''Manual''],
              priceRange = \<lparr>range_min = 10000, range_max = 20000\<rparr>\<rparr>
   \<and> getCarFilters empty_store =
     Success \<lparr>brands = [], bodyTypes = [], fuelTypes = [], transmissions = [],
              priceRange = \<lparr>range_min = 0, range_max = 100000\<rparr>\<rparr>
   \<and> (\<exists>d. getCarFilters ex_store = Success d \<and> sorted (brands d) \<and> distinct (brands d)
          \<and> range_min (priceRange d) \<le> range_max (priceRange d))"
proof -
  have a: "getCarFilters ex_store =
     Success \<lparr>brands = [''Honda'', ''Toyota''], bodyTypes = [''Sedan''],
              fuelTypes = [''Hybrid'', ''Petrol''], transmissions = [''Automatic'', ''Manual''],
              priceRange = \<lparr>range_min = 10000, range_max = 20000\<rparr>\<rparr>"
    by code_simp
  have b: "getCarFilters empty_store =
     Success \<lparr>brands = [], bodyTypes = [], fuelTypes = [], transmissions = [],
              priceRange = \<lparr>range_min = 0, range_max = 100000\<rparr>\<rparr>"
    by code_simp
  from getCarFilters_facets [of ex_store]
  obtain d where "getCarFilters ex_store = Success d" "sorted (brands d)" "distinct (brands d)"
    "range_min (priceRange d) \<le> range_max (priceRange d)"
    by (elim exE conjE) (rule that)
  then have c: "\<exists>d. getCarFilters ex_store = Success d \<and> sorted (brands d) \<and> distinct (brands d)
          \<and> range_min (priceRange d) \<le> range_max (priceRange d)"
    by (intro exI conjI)
  show ?thesis by (intro conjI a b c)
qed

section \<open>Properties of getCarById\<close>

text \<open>
  C7, the failing input. Bob (user \<open>u2\<close>) has a pending booking on car \<open>c1\<close>. A caller
  who is not signed in, and a signed-in caller without a user row, both receive Bob's
  booking as \<open>userTestDrive\<close>: the filter key \<open>userId\<close> is undefined for them and so is
  left out. Alice, who has a user row and no booking, receives null.
\<close>

theorem getCarById_leaks_booking:
  "booking_userId ex_booking = ''u2''
   \<and> getCarById ex_store None ''c1'' =
       Success \<lparr>details_car = \<lparr>listing = ex_honda, wishlisted = False\<rparr>,
                testDriveInfo = \<lparr>userTestDrive =
                    Some \<lparr>td_id = ''b1'', td_status = PENDING, td_bookingDate = 20\<rparr>,
                  dealership = None\<rparr>\<rparr>
   \<and> getCarById ex_store (Some ''clerk_carol'') ''c1'' =
       Success \<lparr>details_car = \<lparr>listing = ex_honda, wishlisted = False\<rparr>,
                testDriveInfo = \<lparr>userTestDrive =
                    Some \<lparr>td_id = ''b1'', td_status = PENDING, td_bookingDate = 20\<rparr>,
                  dealership = None\<rparr>\<rparr>
   \<and> getCarById ex_store (Some ''clerk_alice'') ''c1'' =
       Success \<lparr>details_car = \<lparr>listing = ex_honda, wishlisted = False\<rparr>,
                testDriveInfo = \<lparr>userTestDrive = None, dealership = None\<rparr>\<rparr>
   \<and> getCarById ex_store None ''c9'' = Failure CarNotFound"
  by code_simp

section \<open>Properties of the settings actions\<close>

lemma include_default_workingHours:
  "sort_key (\<lambda>h. day_index (dayOfWeek h)) default_workingHours = default_workingHours"
  by (simp add: default_workingHours_def)

lemma distinct_default_days: "distinct (map dayOfWeek default_workingHours)"
  by (simp add: default_workingHours_def)

lemma default_hours_listed:
  "map (\<lambda>h. (dayOfWeek h, openTime h, closeTime h, isOpen h)) default_workingHours =
         [(MONDAY, ''09:00'', ''18:00'', True),
          (TUESDAY, ''09:00'', ''18:00'', True),
          (WEDNESDAY, ''09:00'', ''18:00'', True),
          (THURSDAY, ''09:00'', ''18:00'', True),
          (FRIDAY, ''09:00'', ''18:00'', True),
          (SATURDAY, ''10:00'', ''16:00'', True),
          (SUNDAY, ''10:00'', ''16:00'', False)]"
  unfolding default_workingHours_def by simp

lemma getDealershipInfo_create:
  assumes "dealerships s = []" and "signed_in caller"
  shows "getDealershipInfo s caller newId now =
     (Success \<lparr>dealership_id = newId,
             dealership_name = ''Autora Motors'',
             address = ''69 Car Street, MH,IN'',
             phone = ''+91 12345 67890'',
             dealership_email = ''contact@autora.com'',
             workingHours = default_workingHours,
             dealership_createdAt = now,
             dealership_updatedAt = now\<rparr>,
      s\<lparr>dealerships := [\<lparr>dealership_id = newId,
             dealership_name = ''Autora Motors'',
             address = ''69 Car Street, MH,IN'',
             phone = ''+91 12345 67890'',
             dealership_email = ''contact@autora.com'',
             workingHours = default_workingHours,
             dealership_createdAt = now,
             dealership_updatedAt = now\<rparr>]\<rparr>)"
  using assms distinct_default_days
  by (simp add: getDealershipInfo_def dealership_findFirst_def dealership_create_def Let_def
      include_workingHours_def include_default_workingHours)

text \<open>
  C9 (amended). When no dealership row exists and the caller is signed in,
  getDealershipInfo creates one dealership row, so that the table holds exactly that row,
  with the seven default working hours (Monday to Friday 09:00 to 18:00 open, Saturday
  10:00 to 16:00 open, Sunday 10:00 to 16:00 closed), and returns that row.
\<close>

theorem getDealershipInfo_creates_default:
  assumes "dealerships s = []" and "signed_in caller"
  shows "\<exists>d. getDealershipInfo s caller newId now = (Success d, s\<lparr>dealerships := [d]\<rparr>)
     \<and> dealership_id d = newId
     \<and> map (\<lambda>h. (dayOfWeek h, openTime h, closeTime h, isOpen h)) (workingHours d) =
         [(MONDAY, ''09:00'', ''18:00'', True),
          (TUESDAY, ''09:00'', ''18:00'', True),
          (WEDNESDAY, ''09:00'', ''18:00'', True),
          (THURSDAY, ''09:00'', ''18:00'', True),
          (FRIDAY, ''09:00'', ''18:00'', True),
          (SATURDAY, ''10:00'', ''16:00'', True),
          (SUNDAY, ''10:00'', ''16:00'', False)]"
proof -
  let ?d = "\<lparr>dealership_id = newId,
             dealership_name = ''Autora Motors'',
             address = ''69 Car Street, MH,IN'',
             phone = ''+91 12345 67890'',
             dealership_email = ''contact@autora.com'',
             workingHours = default_workingHours,
             dealership_createdAt = now,
             dealership_updatedAt = now\<rparr>"
  have run: "getDealershipInfo s caller newId now = (Success ?d, s\<lparr>dealerships := [?d]\<rparr>)"
    by (rule getDealershipInfo_create [OF assms])
  have ident: "dealership_id ?d = newId" by simp
  have hours: "workingHours ?d = default_workingHours" by simp
  show ?thesis
    by (rule exI [of _ ?d]) (simp only: run ident hours default_hours_listed simp_thms)
qed

theorem getDealershipInfo_creates_default_witness:
  "dealerships ex_store = [] \<and> signed_in (Some ''clerk_alice'')
   \<and> (\<exists>d. getDealershipInfo ex_store (Some ''clerk_alice'') ''d1'' 7
            = (Success d, ex_store\<lparr>dealerships := [d]\<rparr>)
          \<and> dealership_id d = ''d1'' \<and> length (workingHours d) = 7)"
proof -
  have a: "dealerships ex_store = []" by (simp add: ex_store_def)
  have b: "signed_in (Some ''clerk_alice'')" by (simp add: signed_in_def truthy_str_def)
  from getDealershipInfo_creates_default [OF a b, of "''d1''" 7]
  obtain d where d: "getDealershipInfo ex_store (Some ''clerk_alice'') ''d1'' 7
            = (Success d, ex_store\<lparr>dealerships := [d]\<rparr>)"
      "dealership_id d = ''d1''"
      "map (\<lambda>h. (dayOfWeek h, openTime h, closeTime h, isOpen h)) (workingHours d) =
         [(MONDAY, ''09:00'', ''18:00'', True),
          (TUESDAY, ''09:00'', ''18:00'', True),
          (WEDNESDAY, ''09:00'', ''18:00'', True),
          (THURSDAY, ''09:00'', ''18:00'', True),
          (FRIDAY, ''09:00'', ''18:00'', True),
          (SATURDAY, ''10:00'', ''16:00'', True),
          (SUNDAY, ''10:00'', ''16:00'', False)]"
    by (elim exE conjE) (rule that)
  have "length (map (\<lambda>h. (dayOfWeek h, openTime h, closeTime h, isOpen h)) (workingHours d)) = 7"
    unfolding d(3) by simp
  then have len: "length (workingHours d) = 7" by simp
  from d(1,2) len
  have "\<exists>d. getDealershipInfo ex_store (Some ''clerk_alice'') ''d1'' 7
            = (Success d, ex_store\<lparr>dealerships := [d]\<rparr>)
          \<and> dealership_id d = ''d1'' \<and> length (workingHours d) = 7"
    by (intro exI conjI)
  with a b show ?thesis by (intro conjI)
qed

text \<open>
  C9, counterexample. No dealership row exists and the caller is not signed in: the read
  fails with Unauthorized and the store is left as it was, without a dealership row.
\<close>

theorem getDealershipInfo_unauthenticated_counterexample:
  "dealerships ex_store = []
   \<and> getDealershipInfo ex_store None ''d1'' 7 = (Failure Unauthorized, ex_store)"
  by (simp add: getDealershipInfo_def signed_in_def ex_store_def)

section \<open>Properties of toggleSavedCar\<close>

lemma same_pair_eq:
  "same_pair uid cid sv = (sv = \<lparr>saved_userId = uid, saved_carId = cid\<rparr>)"
  by (cases sv) (auto simp: same_pair_def)

lemma find_None_iff_set: "(find P xs = None) = (\<forall>x \<in> set xs. \<not> P x)"
  by (induction xs) auto

lemma is_saved_iff:
  "is_saved s uid cid = (\<lparr>saved_userId = uid, saved_carId = cid\<rparr> \<in> set (savedCars s))"
proof -
  have "is_saved s uid cid = (\<exists>sv \<in> set (savedCars s). same_pair uid cid sv)"
    by (simp add: is_saved_def savedCar_findUnique_def find_None_iff_set same_pair_def)
  then show ?thesis by (simp add: same_pair_eq)
qed

lemma toggle_when_saved:
  assumes "caller = Some userId" and "truthy_str userId"
    and "user_findUnique_clerk s userId = Some user"
    and "car_findUnique s carId = Some car"
    and "is_saved s (user_id user) carId"
  shows "toggleSavedCar s caller carId =
     (Success \<lparr>saved = False, message = ''Car removed from favorites''\<rparr>,
      s\<lparr>savedCars := filter (\<lambda>sv. \<not> same_pair (user_id user) carId sv) (savedCars s)\<rparr>)"
proof -
  from assms(5) obtain sv where "savedCar_findUnique s (user_id user) carId = Some sv"
    by (auto simp: is_saved_def)
  then show ?thesis
    using assms(1-4) by (simp add: toggleSavedCar_def savedCar_delete_def)
qed

lemma toggle_when_not_saved:
  assumes "caller = Some userId" and "truthy_str userId"
    and "user_findUnique_clerk s userId = Some user"
    and "car_findUnique s carId = Some car"
    and "\<not> is_saved s (user_id user) carId"
  shows "toggleSavedCar s caller carId =
     (Success \<lparr>saved = True, message = ''Car added to favorites''\<rparr>,
      s\<lparr>savedCars := savedCars s @ [\<lparr>saved_userId = user_id user, saved_carId = carId\<rparr>]\<rparr>)"
proof -
  from assms(5) have "savedCar_findUnique s (user_id user) carId = None"
    by (simp add: is_saved_def)
  then show ?thesis
    using assms(1-4) by (simp add: toggleSavedCar_def savedCar_create_def)
qed

lemma set_filter_not_pair:
  "set (filter (\<lambda>sv. \<not> same_pair uid cid sv) xs)
     = set xs - {\<lparr>saved_userId = uid, saved_carId = cid\<rparr>}"
  by (auto simp: same_pair_eq)

lemma lookups_savedCars_update:
  "user_findUnique_clerk (s\<lparr>savedCars := xs\<rparr>) userId = user_findUnique_clerk s userId"
  "car_findUnique (s\<lparr>savedCars := xs\<rparr>) carId = car_findUnique s carId"
  by (simp_all add: user_findUnique_clerk_def car_findUnique_def)

text \<open>
  C2. Let the caller be signed in and have a user record, and let the listing exist.
  If the (user, listing) row exists, toggleSavedCar removes it, leaves every other row
  and table as it was, and reports \<open>saved = false\<close>; if it does not exist, toggleSavedCar
  adds it, changes nothing else, and reports \<open>saved = true\<close>. Two toggles in a row both
  succeed, the second reports the negation of the first, and afterwards the wishlist table
  holds the same rows as at the start, so every pair is saved exactly if it was before.
\<close>

theorem toggleSavedCar_toggles:
  assumes "caller = Some userId" and "truthy_str userId"
    and "user_findUnique_clerk s userId = Some user"
    and "car_findUnique s carId = Some car"
  shows "(is_saved s (user_id user) carId \<longrightarrow>
           (\<exists>s'. toggleSavedCar s caller carId =
                   (Success \<lparr>saved = False, message = ''Car removed from favorites''\<rparr>, s')
              \<and> set (savedCars s') =
                  set (savedCars s) - {\<lparr>saved_userId = user_id user, saved_carId = carId\<rparr>}
              \<and> \<not> is_saved s' (user_id user) carId
              \<and> s' = s\<lparr>savedCars := savedCars s'\<rparr>))
     \<and> (\<not> is_saved s (user_id user) carId \<longrightarrow>
           (\<exists>s'. toggleSavedCar s caller carId =
                   (Success \<lparr>saved = True, message = ''Car added to favorites''\<rparr>, s')
              \<and> set (savedCars s') =
                  insert \<lparr>saved_userId = user_id user, saved_carId = carId\<rparr> (set (savedCars s))
              \<and> is_saved s' (user_id user) carId
              \<and> s' = s\<lparr>savedCars := savedCars s'\<rparr>))
     \<and> (\<exists>b m1 m2 s1 s2.
           toggleSavedCar s caller carId = (Success \<lparr>saved = b, message = m1\<rparr>, s1)
         \<and> toggleSavedCar s1 caller carId = (Success \<lparr>saved = (\<not> b), message = m2\<rparr>, s2)
         \<and> b = (\<not> is_saved s (user_id user) carId)
         \<and> set (savedCars s2) = set (savedCars s)
         \<and> (\<forall>u c. is_saved s2 u c = is_saved s u c)
         \<and> s2 = s\<lparr>savedCars := savedCars s2\<rparr>)"
proof -
  let ?uid = "user_id user"
  let ?row = "\<lparr>saved_userId = ?uid, saved_carId = carId\<rparr>"
  let ?del = "\<lambda>t. t\<lparr>savedCars := filter (\<lambda>sv. \<not> same_pair ?uid carId sv) (savedCars t)\<rparr>"
  let ?add = "\<lambda>t. t\<lparr>savedCars := savedCars t @ [?row]\<rparr>"
  note pre = assms
  have pre_del: "user_findUnique_clerk (?del s) userId = Some user"
      "car_findUnique (?del s) carId = Some car"
    using assms(3,4) by (simp_all add: lookups_savedCars_update)
  have pre_add: "user_findUnique_clerk (?add s) userId = Some user"
      "car_findUnique (?add s) carId = Some car"
    using assms(3,4) by (simp_all add: lookups_savedCars_update)
  have not_after_del: "\<not> is_saved (?del s) ?uid carId"
    by (simp add: is_saved_iff same_pair_eq)
  have after_add: "is_saved (?add s) ?uid carId"
    by (simp add: is_saved_iff)
  have first: "is_saved s ?uid carId \<longrightarrow>
           (\<exists>s'. toggleSavedCar s caller carId =
                   (Success \<lparr>saved = False, message = ''Car removed from favorites''\<rparr>, s')
              \<and> set (savedCars s') = set (savedCars s) - {?row}
              \<and> \<not> is_saved s' ?uid carId
              \<and> s' = s\<lparr>savedCars := savedCars s'\<rparr>)"
  proof
    assume sv: "is_saved s ?uid carId"
    show "\<exists>s'. toggleSavedCar s caller carId =
                   (Success \<lparr>saved = False, message = ''Car removed from favorites''\<rparr>, s')
              \<and> set (savedCars s') = set (savedCars s) - {?row}
              \<and> \<not> is_saved s' ?uid carId
              \<and> s' = s\<lparr>savedCars := savedCars s'\<rparr>"
      using toggle_when_saved [OF pre sv] not_after_del
        set_filter_not_pair [of ?uid carId "savedCars s"]
      by (intro exI [of _ "?del s"]) simp
  qed
  have second: "\<not> is_saved s ?uid carId \<longrightarrow>
           (\<exists>s'. toggleSavedCar s caller carId =
                   (Success \<lparr>saved = True, message = ''Car added to favorites''\<rparr>, s')
              \<and> set (savedCars s') = insert ?row (set (savedCars s))
              \<and> is_saved s' ?uid carId
              \<and> s' = s\<lparr>savedCars := savedCars s'\<rparr>)"
  proof
    assume nsv: "\<not> is_saved s ?uid carId"
    show "\<exists>s'. toggleSavedCar s caller carId =
                   (Success \<lparr>saved = True, message = ''Car added to favorites''\<rparr>, s')
              \<and> set (savedCars s') = insert ?row (set (savedCars s))
              \<and> is_saved s' ?uid carId
              \<and> s' = s\<lparr>savedCars := savedCars s'\<rparr>"
      using toggle_when_not_saved [OF pre nsv] after_add
      by (intro exI [of _ "?add s"]) simp
  qed
  have twice: "\<exists>b m1 m2 s1 s2.
           toggleSavedCar s caller carId = (Success \<lparr>saved = b, message = m1\<rparr>, s1)
         \<and> toggleSavedCar s1 caller carId = (Success \<lparr>saved = (\<not> b), message = m2\<rparr>, s2)
         \<and> b = (\<not> is_saved s ?uid carId)
         \<and> set (savedCars s2) = set (savedCars s)
         \<and> (\<forall>u c. is_saved s2 u c = is_saved s u c)
         \<and> s2 = s\<lparr>savedCars := savedCars s2\<rparr>"
  proof (cases "is_saved s ?uid carId")
    case True
    have t1: "toggleSavedCar s caller carId =
        (Success \<lparr>saved = False, message = ''Car removed from favorites''\<rparr>, ?del s)"
      by (rule toggle_when_saved [OF pre True])
    have t2: "toggleSavedCar (?del s) caller carId =
        (Success \<lparr>saved = True, message = ''Car added to favorites''\<rparr>, ?add (?del s))"
      by (rule toggle_when_not_saved [OF pre(1,2) pre_del not_after_del])
    have sets: "set (savedCars (?add (?del s))) = set (savedCars s)"
      using True by (auto simp: same_pair_eq is_saved_iff)
    have same: "\<forall>u c. is_saved (?add (?del s)) u c = is_saved s u c"
      unfolding is_saved_iff sets by simp
    have frame: "?add (?del s) = s\<lparr>savedCars := savedCars (?add (?del s))\<rparr>" by simp
    show ?thesis
      apply (rule exI [of _ False])
      apply (rule exI [of _ "''Car removed from favorites''"])
      apply (rule exI [of _ "''Car added to favorites''"])
      apply (rule exI [of _ "?del s"])
      apply (rule exI [of _ "?add (?del s)"])
      using t1 t2 True sets same frame
      apply (intro conjI)
           apply simp_all
      done
  next
    case False
    have t1: "toggleSavedCar s caller carId =
        (Success \<lparr>saved = True, message = ''Car added to favorites''\<rparr>, ?add s)"
      by (rule toggle_when_not_saved [OF pre False])
    have t2: "toggleSavedCar (?add s) caller carId =
        (Success \<lparr>saved = False, message = ''Car removed from favorites''\<rparr>, ?del (?add s))"
      by (rule toggle_when_saved [OF pre(1,2) pre_add after_add])
    have sets: "set (savedCars (?del (?add s))) = set (savedCars s)"
      using False by (auto simp: same_pair_eq is_saved_iff)
    have same: "\<forall>u c. is_saved (?del (?add s)) u c = is_saved s u c"
      unfolding is_saved_iff sets by simp
    have frame: "?del (?add s) = s\<lparr>savedCars := savedCars (?del (?add s))\<rparr>" by simp
    show ?thesis
      apply (rule exI [of _ True])
      apply (rule exI [of _ "''Car added to favorites''"])
      apply (rule exI [of _ "''Car removed from favorites''"])
      apply (rule exI [of _ "?add s"])
      apply (rule exI [of _ "?del (?add s)"])
      using t1 t2 False sets same frame
      apply (intro conjI)
           apply simp_all
      done
  qed
  from first second twice show ?thesis by (intro conjI)
qed
lemma ex_bob_lookup: "user_findUnique_clerk ex_store ''clerk_bob'' = Some ex_bob"
  by (simp add: user_findUnique_clerk_def ex_store_def ex_alice_def ex_bob_def)

lemma ex_alice_lookup: "user_findUnique_clerk ex_store ''clerk_alice'' = Some ex_alice"
  by (simp add: user_findUnique_clerk_def ex_store_def ex_alice_def)

lemma ex_carol_lookup: "user_findUnique_clerk ex_store ''clerk_carol'' = None"
  by (simp add: user_findUnique_clerk_def ex_store_def ex_alice_def ex_bob_def)

lemma ex_honda_lookup: "car_findUnique ex_store ''c1'' = Some ex_honda"
  by (simp add: car_findUnique_def ex_store_def ex_honda_def)

lemma ex_bob_saved: "is_saved ex_store (user_id ex_bob) ''c1''"
  by (simp add: is_saved_iff ex_store_def ex_bob_def)

lemma ex_alice_not_saved: "\<not> is_saved ex_store (user_id ex_alice) ''c1''"
  by (simp add: is_saved_iff ex_store_def ex_alice_def)

theorem toggleSavedCar_toggles_witness:
  "truthy_str ''clerk_bob''
   \<and> user_findUnique_clerk ex_store ''clerk_bob'' = Some ex_bob
   \<and> car_findUnique ex_store ''c1'' = Some ex_honda
   \<and> is_saved ex_store (user_id ex_bob) ''c1''
   \<and> (\<exists>s'. toggleSavedCar ex_store (Some ''clerk_bob'') ''c1'' =
              (Success \<lparr>saved = False, message = ''Car removed from favorites''\<rparr>, s')
          \<and> \<not> is_saved s' (user_id ex_bob) ''c1'')
   \<and> user_findUnique_clerk ex_store ''clerk_alice'' = Some ex_alice
   \<and> \<not> is_saved ex_store (user_id ex_alice) ''c1''
   \<and> (\<exists>s'. toggleSavedCar ex_store (Some ''clerk_alice'') ''c1'' =
              (Success \<lparr>saved = True, message = ''Car added to favorites''\<rparr>, s')
          \<and> is_saved s' (user_id ex_alice) ''c1'')"
proof -
  have t: "truthy_str ''clerk_bob''" "truthy_str ''clerk_alice''"
    by (simp_all add: truthy_str_def)
  note bob = toggleSavedCar_toggles [OF refl t(1) ex_bob_lookup ex_honda_lookup,
      THEN conjunct1, rule_format, OF ex_bob_saved]
  note alice = toggleSavedCar_toggles [OF refl t(2) ex_alice_lookup ex_honda_lookup,
      THEN conjunct2, THEN conjunct1, rule_format, OF ex_alice_not_saved]
  from bob obtain s1 where s1:
    "toggleSavedCar ex_store (Some ''clerk_bob'') ''c1'' =
       (Success \<lparr>saved = False, message = ''Car removed from favorites''\<rparr>, s1)"
    "\<not> is_saved s1 (user_id ex_bob) ''c1''"
    by (elim exE conjE) (rule that)
  from alice obtain s2 where s2:
    "toggleSavedCar ex_store (Some ''clerk_alice'') ''c1'' =
       (Success \<lparr>saved = True, message = ''Car added to favorites''\<rparr>, s2)"
    "is_saved s2 (user_id ex_alice) ''c1''"
    by (elim exE conjE) (rule that)
  from s1 have a: "\<exists>s'. toggleSavedCar ex_store (Some ''clerk_bob'') ''c1'' =
              (Success \<lparr>saved = False, message = ''Car removed from favorites''\<rparr>, s')
          \<and> \<not> is_saved s' (user_id ex_bob) ''c1''"
    by (intro exI conjI)
  from s2 have b: "\<exists>s'. toggleSavedCar ex_store (Some ''clerk_alice'') ''c1'' =
              (Success \<lparr>saved = True, message = ''Car added to favorites''\<rparr>, s')
          \<and> is_saved s' (user_id ex_alice) ''c1''"
    by (intro exI conjI)
  show ?thesis
    by (intro conjI t(1) ex_bob_lookup ex_honda_lookup ex_bob_saved a ex_alice_lookup
        ex_alice_not_saved b)
qed

section \<open>Properties of saveWorkingHours and updateUserRole\<close>

lemma not_admin_cases:
  assumes "caller = None
     \<or> (\<exists>userId. caller = Some userId
          \<and> (user_findUnique_clerk s userId = None
              \<or> (\<exists>u. user_findUnique_clerk s userId = Some u \<and> role u \<noteq> ADMIN)))"
  shows "caller = None \<or> (\<exists>userId. caller = Some userId \<and> \<not> is_admin s userId)"
  using assms by (auto simp: is_admin_def)

lemma saveWorkingHours_refused:
  assumes "caller = None \<or> (\<exists>userId. caller = Some userId \<and> \<not> is_admin s userId)"
  shows "saveWorkingHours s caller hours = (Failure Unauthorized, s)
     \<or> saveWorkingHours s caller hours = (Failure AdminRequired, s)"
  using assms by (auto simp: saveWorkingHours_def)

lemma updateUserRole_refused:
  assumes "caller = None \<or> (\<exists>userId. caller = Some userId \<and> \<not> is_admin s userId)"
  shows "updateUserRole s caller uid newRole = (Failure MissingUser, s)
     \<or> updateUserRole s caller uid newRole = (Failure MissingRole, s)
     \<or> updateUserRole s caller uid newRole = (Failure Unauthorized, s)
     \<or> updateUserRole s caller uid newRole = (Failure AdminRequired, s)"
  using assms by (auto simp: updateUserRole_def split: option.splits)

text \<open>
  C8. Let the caller be not signed in, or have no user record, or have a user record whose
  role is not ADMIN. Then, whatever working hours, target user id and target role the
  client supplies, saveWorkingHours and updateUserRole each return a failure and leave
  the store exactly as it was. The check reads the role of the row found under the
  caller's own identity; the arguments play no part in it.
\<close>

theorem admin_actions_refused:
  assumes "caller = None
     \<or> (\<exists>userId. caller = Some userId
          \<and> (user_findUnique_clerk s userId = None
              \<or> (\<exists>u. user_findUnique_clerk s userId = Some u \<and> role u \<noteq> ADMIN)))"
  shows "(saveWorkingHours s caller hours = (Failure Unauthorized, s)
          \<or> saveWorkingHours s caller hours = (Failure AdminRequired, s))
     \<and> (updateUserRole s caller uid newRole = (Failure MissingUser, s)
          \<or> updateUserRole s caller uid newRole = (Failure MissingRole, s)
          \<or> updateUserRole s caller uid newRole = (Failure Unauthorized, s)
          \<or> updateUserRole s caller uid newRole = (Failure AdminRequired, s))"
  using saveWorkingHours_refused [OF not_admin_cases [OF assms], of hours]
    updateUserRole_refused [OF not_admin_cases [OF assms], of uid newRole]
  by (intro conjI)

theorem admin_actions_refused_witness:
  "user_findUnique_clerk ex_store ''clerk_carol'' = None
   \<and> user_findUnique_clerk ex_store ''clerk_alice'' = Some ex_alice \<and> role ex_alice \<noteq> ADMIN
   \<and> saveWorkingHours ex_store None default_workingHours = (Failure Unauthorized, ex_store)
   \<and> updateUserRole ex_store None ''u1'' (Some ADMIN) = (Failure Unauthorized, ex_store)
   \<and> saveWorkingHours ex_store (Some ''clerk_carol'') default_workingHours
       = (Failure AdminRequired, ex_store)
   \<and> updateUserRole ex_store (Some ''clerk_carol'') ''u1'' (Some ADMIN)
       = (Failure AdminRequired, ex_store)
   \<and> saveWorkingHours ex_store (Some ''clerk_alice'') default_workingHours
       = (Failure AdminRequired, ex_store)
   \<and> updateUserRole ex_store (Some ''clerk_alice'') ''u1'' (Some ADMIN)
       = (Failure AdminRequired, ex_store)"
proof -
  have r: "role ex_alice \<noteq> ADMIN" by (simp add: ex_alice_def)
  have h1: "(None :: string option) = None
     \<or> (\<exists>userId. None = Some userId
          \<and> (user_findUnique_clerk ex_store userId = None
              \<or> (\<exists>u. user_findUnique_clerk ex_store userId = Some u \<and> role u \<noteq> ADMIN)))"
    by simp
  have h2: "Some ''clerk_carol'' = None
     \<or> (\<exists>userId. Some ''clerk_carol'' = Some userId
          \<and> (user_findUnique_clerk ex_store userId = None
              \<or> (\<exists>u. user_findUnique_clerk ex_store userId = Some u \<and> role u \<noteq> ADMIN)))"
    using ex_carol_lookup by simp
  have h3: "Some ''clerk_alice'' = None
     \<or> (\<exists>userId. Some ''clerk_alice'' = Some userId
          \<and> (user_findUnique_clerk ex_store userId = None
              \<or> (\<exists>u. user_findUnique_clerk ex_store userId = Some u \<and> role u \<noteq> ADMIN)))"
    using ex_alice_lookup r by simp
  have n1: "saveWorkingHours ex_store None default_workingHours \<noteq> (Failure AdminRequired, ex_store)"
    by (simp add: saveWorkingHours_def)
  have n2: "updateUserRole ex_store None ''u1'' (Some ADMIN) = (Failure Unauthorized, ex_store)"
    by (simp add: updateUserRole_def truthy_str_def)
  have n3: "saveWorkingHours ex_store (Some ''clerk_carol'') default_workingHours
      \<noteq> (Failure Unauthorized, ex_store)"
    by (simp add: saveWorkingHours_def truthy_str_def is_admin_def ex_carol_lookup)
  have n4: "updateUserRole ex_store (Some ''clerk_carol'') ''u1'' (Some ADMIN)
      = (Failure AdminRequired, ex_store)"
    by (simp add: updateUserRole_def truthy_str_def is_admin_def ex_carol_lookup)
  have n5: "saveWorkingHours ex_store (Some ''clerk_alice'') default_workingHours
      \<noteq> (Failure Unauthorized, ex_store)"
    by (simp add: saveWorkingHours_def truthy_str_def is_admin_def ex_alice_lookup r)
  have n6: "updateUserRole ex_store (Some ''clerk_alice'') ''u1'' (Some ADMIN)
      = (Failure AdminRequired, ex_store)"
    by (simp add: updateUserRole_def truthy_str_def is_admin_def ex_alice_lookup r)
  from admin_actions_refused [OF h1, of default_workingHours "''u1''" "Some ADMIN"] n1
  have a: "saveWorkingHours ex_store None default_workingHours = (Failure Unauthorized, ex_store)"
    by (elim conjE disjE) simp_all
  from admin_actions_refused [OF h2, of default_workingHours "''u1''" "Some ADMIN"] n3
  have b: "saveWorkingHours ex_store (Some ''clerk_carol'') default_workingHours
       = (Failure AdminRequired, ex_store)"
    by (elim conjE disjE) simp_all
  from admin_actions_refused [OF h3, of default_workingHours "''u1''" "Some ADMIN"] n5
  have c: "saveWorkingHours ex_store (Some ''clerk_alice'') default_workingHours
       = (Failure AdminRequired, ex_store)"
    by (elim conjE disjE) simp_all
  show ?thesis
    by (intro conjI ex_carol_lookup ex_alice_lookup r a n2 b n4 c n6)
qed

section \<open>The price bounds and the caller's own booking\<close>

lemma getCars_listings_match:
  assumes "getCars pf s caller p = Success r" and "x \<in> set (data r)"
  shows "listing x \<in> set (cars s) \<and> matches (buildWhere pf p) (listing x)"
proof -
  let ?rows = "take_skip (p_limit p) ((p_page p - 1) * p_limit p)
     (order_cars (orderBy_of (p_sortBy p)) (filter (matches (buildWhere pf p)) (cars s)))"
  note ok = getCars_Success_D [OF assms(1)]
  from getCars_success [OF ok, of s caller] assms(1)
  have r: "r = \<lparr>
       data = map (\<lambda>c. serializeCarData c (car_id c \<in> wishlist_of s (dbUser s caller))) ?rows,
       pagination = \<lparr>
         total = length (filter (matches (buildWhere pf p)) (cars s)),
         page = p_page p,
         limit = p_limit p,
         pages = ceil_div (length (filter (matches (buildWhere pf p)) (cars s))) (p_limit p) \<rparr> \<rparr>"
    by simp
  have "map listing (data r) = ?rows"
    by (simp add: r serializeCarData_def comp_def)
  moreover from assms(2) have "listing x \<in> set (map listing (data r))"
    by simp
  ultimately have mem: "listing x \<in> set ?rows"
    by simp
  have sub: "set ?rows \<subseteq> set (order_cars (orderBy_of (p_sortBy p))
      (filter (matches (buildWhere pf p)) (cars s)))"
    by (rule set_take_skip)
  from subsetD [OF sub mem] show ?thesis by (simp add: set_order_cars)
qed

lemma price_gte_D: "price_gte x n \<Longrightarrow> \<exists>lo. n = Fin lo \<and> lo \<le> x"
  by (cases n) simp_all

lemma price_lte_D: "price_lte x (Some n) \<Longrightarrow> \<exists>hi. n = Fin hi \<and> x \<le> hi"
  by (cases n) simp_all

text \<open>
  The price predicate where the code applies it: every returned listing is priced at
  least the lower bound \<open>parseFloat(minPrice) || 0\<close>, and at most \<open>parseFloat(maxPrice)\<close>
  whenever \<open>maxPrice\<close> is truthy.
\<close>

lemma getCars_price_bounds:
  assumes "getCars pf s caller p = Success r" and "x \<in> set (data r)"
  shows "(\<exists>lo. num_or (parseFloat_param pf (p_minPrice p)) (Fin 0) = Fin lo
            \<and> lo \<le> price (listing x))
     \<and> (truthy_param (p_maxPrice p) \<longrightarrow>
          (\<exists>hi. parseFloat_param pf (p_maxPrice p) = Fin hi \<and> price (listing x) \<le> hi))"
proof -
  from getCars_listings_match [OF assms]
  have m: "matches (buildWhere pf p) (listing x)" by (rule conjunct2)
  then have lo: "price_gte (price (listing x)) (num_or (parseFloat_param pf (p_minPrice p)) (Fin 0))"
    by (simp add: matches_def buildWhere_def)
  have a: "\<exists>lo. num_or (parseFloat_param pf (p_minPrice p)) (Fin 0) = Fin lo
            \<and> lo \<le> price (listing x)"
    by (rule price_gte_D [OF lo])
  have b: "truthy_param (p_maxPrice p) \<longrightarrow>
          (\<exists>hi. parseFloat_param pf (p_maxPrice p) = Fin hi \<and> price (listing x) \<le> hi)"
  proof
    assume t: "truthy_param (p_maxPrice p)"
    have "price_lte (price (listing x)) (Some (parseFloat_param pf (p_maxPrice p)))"
      using m t by (simp add: matches_def buildWhere_def)
    then show "\<exists>hi. parseFloat_param pf (p_maxPrice p) = Fin hi \<and> price (listing x) \<le> hi"
      by (rule price_lte_D)
  qed
  from a b show ?thesis by (rule conjI)
qed
lemma getCarById_not_found:
  "car_findUnique s carId = None \<Longrightarrow> getCarById s caller carId = Failure CarNotFound"
  by (simp add: getCarById_def)

lemma testDrive_findFirst_None:
  assumes "testDrive_findFirst s w = None"
  shows "\<forall>b \<in> set (testDrives s). \<not> booking_matches w b"
proof -
  have "sort_key (\<lambda>b. - int (booking_createdAt b)) (filter (booking_matches w) (testDrives s)) = []"
    using assms by (simp add: testDrive_findFirst_def split: list.splits)
  then have "set (sort_key (\<lambda>b. - int (booking_createdAt b))
      (filter (booking_matches w) (testDrives s))) = {}"
    by simp
  then show ?thesis by (simp add: filter_empty_conv)
qed

lemma testDrive_findFirst_Some:
  assumes "testDrive_findFirst s w = Some b"
  shows "b \<in> set (testDrives s) \<and> booking_matches w b
     \<and> (\<forall>b' \<in> set (testDrives s). booking_matches w b' \<longrightarrow>
           booking_createdAt b' \<le> booking_createdAt b)"
proof -
  let ?key = "\<lambda>b. - int (booking_createdAt b)"
  let ?xs = "filter (booking_matches w) (testDrives s)"
  from assms obtain bs where srt: "sort_key ?key ?xs = b # bs"
    by (auto simp: testDrive_findFirst_def split: list.splits)
  have "set (sort_key ?key ?xs) = set ?xs" by simp
  with srt have mem: "set (b # bs) = set ?xs" by simp
  then have b: "b \<in> set ?xs" by auto
  have "sorted (map ?key (sort_key ?key ?xs))" by (rule sorted_sort_key)
  with srt have "sorted (map ?key (b # bs))" by simp
  then have "\<forall>x \<in> set (b # bs). ?key b \<le> ?key x" by auto
  with mem have "\<forall>x \<in> set ?xs. booking_createdAt x \<le> booking_createdAt b" by simp
  with b show ?thesis by auto
qed

text \<open>
  For a caller who has a user record, \<open>userTestDrive\<close> is the caller's own most recent
  booking on the car with status PENDING, CONFIRMED or COMPLETED, or null when the
  caller has none.
\<close>

lemma getCarById_own_booking:
  assumes "dbUser s caller = Some u" and "car_findUnique s carId = Some car"
  shows "\<exists>d. getCarById s caller carId = Success d
     \<and> (case userTestDrive (testDriveInfo d) of
          None \<Rightarrow>
            \<forall>b \<in> set (testDrives s).
              \<not> (booking_carId b = carId \<and> booking_userId b = user_id u
                 \<and> booking_status b \<in> {PENDING, CONFIRMED, COMPLETED})
        | Some t \<Rightarrow>
            \<exists>b \<in> set (testDrives s).
              t = \<lparr>td_id = booking_id b, td_status = booking_status b,
                   td_bookingDate = bookingDate b\<rparr>
              \<and> booking_carId b = carId \<and> booking_userId b = user_id u
              \<and> booking_status b \<in> {PENDING, CONFIRMED, COMPLETED}
              \<and> (\<forall>b' \<in> set (testDrives s).
                    booking_carId b' = carId \<and> booking_userId b' = user_id u
                    \<and> booking_status b' \<in> {PENDING, CONFIRMED, COMPLETED}
                    \<longrightarrow> booking_createdAt b' \<le> booking_createdAt b))"
proof -
  let ?w = "\<lparr>bw_carId = carId, bw_userId = Some (user_id u),
             bw_status_in = [PENDING, CONFIRMED, COMPLETED]\<rparr>"
  have bm: "booking_matches ?w b =
      (booking_carId b = carId \<and> booking_userId b = user_id u
       \<and> booking_status b \<in> {PENDING, CONFIRMED, COMPLETED})" for b
    by (simp add: booking_matches_def)
  show ?thesis
  proof (cases "testDrive_findFirst s ?w")
    case None
    from testDrive_findFirst_None [OF None] show ?thesis
      using assms None by (simp add: getCarById_def bm)
  next
    case (Some b)
    from testDrive_findFirst_Some [OF Some] show ?thesis
      using assms Some by (simp add: getCarById_def bm) blast
  qed
qed

end
